theory Spec2Isabelle
  imports Complex_Main
begin

section \<open>Arrays, indexing and errors\<close>

text \<open>
  The numerical kernels of FasterSpecFit work on one-dimensional numpy arrays of
  floating-point numbers. Arrays are lists, numbers are reals, indices and lengths
  are natural numbers, and every exception the Python raises is a value of the type
  \<open>error\<close>: a function that may raise returns \<open>error + 'a\<close>, with \<open>Inl\<close> for the
  exception.
\<close>

datatype error = IndexError | ValueError | ZeroDivisionError

text \<open>Sequencing of computations that may raise: the first exception wins.\<close>

definition bind :: "error + 'a \<Rightarrow> ('a \<Rightarrow> error + 'b) \<Rightarrow> error + 'b" where
  "bind m f = (case m of Inl err \<Rightarrow> Inl err | Inr x \<Rightarrow> f x)"

text \<open>\<open>xs[i]\<close> with a non-negative index: out of range raises IndexError.\<close>

definition getitem :: "'a list \<Rightarrow> nat \<Rightarrow> error + 'a" where
  "getitem xs i = (if i < length xs then Inr (xs ! i) else Inl IndexError)"

text \<open>\<open>xs[-1]\<close>: the last element, IndexError on an empty array.\<close>

definition getlast :: "'a list \<Rightarrow> error + 'a" where
  "getlast xs = (if xs = [] then Inl IndexError else Inr (last xs))"

text \<open>\<open>xs[i] = v\<close> with a non-negative index.\<close>

definition setitem :: "'a list \<Rightarrow> nat \<Rightarrow> 'a \<Rightarrow> error + 'a list" where
  "setitem xs i v = (if i < length xs then Inr (xs[i := v]) else Inl IndexError)"

text \<open>
  \<open>xs[s:e]\<close> with non-negative bounds: both bounds are clipped to the length of the
  array, and the slice is empty when the clipped bounds cross.
\<close>

definition slice :: "'a list \<Rightarrow> nat \<Rightarrow> nat \<Rightarrow> 'a list" where
  "slice xs s e = take (e - s) (drop s xs)"

text \<open>
  \<open>xs[s:e] = ys\<close>: the target is the clipped slice; the right-hand side must have
  the length of the target, or length one (numpy broadcasts it), else ValueError.
\<close>

definition set_slice :: "'a list \<Rightarrow> nat \<Rightarrow> nat \<Rightarrow> 'a list \<Rightarrow> error + 'a list" where
  "set_slice xs s e ys =
     (let n = length (slice xs s e); s' = min s (length xs) in
      if length ys = n then Inr (take s' xs @ ys @ drop (s' + n) xs)
      else if length ys = 1 then Inr (take s' xs @ replicate n (hd ys) @ drop (s' + n) xs)
      else Inl ValueError)"

text \<open>
  \<open>np.empty(n)\<close> allocates without initialising: the contents are whatever the
  memory held, given here by the function \<open>junk\<close> from positions to values.
\<close>

definition np_empty :: "(nat \<Rightarrow> real) \<Rightarrow> nat \<Rightarrow> real list" where
  "np_empty junk n = map junk [0..<n]"

section \<open>Bin edges from bin centers\<close>

text \<open>
  The body of the loop of \<open>centers_to_edges\<close> for the centers \<open>icenters\<close> of one
  camera: the interior edges \<open>0.5 * (icenters[:-1] + icenters[1:])\<close>, the two
  extrapolated exterior edges, and their concatenation by \<open>np.hstack\<close>.
\<close>

definition int_edges :: "real list \<Rightarrow> real list" where
  "int_edges icenters = map2 (\<lambda>a b. 0.5 * (a + b)) (butlast icenters) (tl icenters)"

definition segment_edges :: "real list \<Rightarrow> error + real list" where
  "segment_edges icenters =
     bind (getitem icenters 0) (\<lambda>c0.
     bind (getitem icenters 1) (\<lambda>c1.
     bind (getitem (int_edges icenters) 0) (\<lambda>m0.
     bind (getlast icenters) (\<lambda>cl.
     bind (getlast icenters) (\<lambda>cl'.
     bind (getlast (int_edges icenters)) (\<lambda>ml.
       Inr ((c0 - (c1 - m0)) # int_edges icenters @ [cl + (cl' - ml)])))))))"

text \<open>
  The loop over \<open>enumerate(camerapix)\<close>: \<open>icam\<close> counts the cameras, each row of
  \<open>camerapix\<close> is a pair \<open>(s, e)\<close> of indices into \<open>centers\<close>.
\<close>

fun centers_to_edges_loop ::
  "real list \<Rightarrow> nat \<Rightarrow> (nat \<times> nat) list \<Rightarrow> real list \<Rightarrow> error + real list" where
  "centers_to_edges_loop centers icam [] edges = Inr edges"
| "centers_to_edges_loop centers icam ((s, e) # rest) edges =
     bind (segment_edges (slice centers s e)) (\<lambda>seg.
     bind (set_slice edges (s + icam) (e + icam + 1) seg) (\<lambda>edges'.
       centers_to_edges_loop centers (Suc icam) rest edges'))"

definition centers_to_edges ::
  "(nat \<Rightarrow> real) \<Rightarrow> real list \<Rightarrow> (nat \<times> nat) list \<Rightarrow> error + real list" where
  "centers_to_edges junk centers camerapix =
     centers_to_edges_loop centers 0 camerapix
       (np_empty junk (length centers + length camerapix))"

section \<open>Basic facts\<close>

lemma bind_Inr [simp]: "bind (Inr x) f = f x"
  by (simp add: bind_def)

lemma bind_Inl [simp]: "bind (Inl err) f = Inl err"
  by (simp add: bind_def)

lemma bind_eq_Inr_iff: "bind m f = Inr y \<longleftrightarrow> (\<exists>x. m = Inr x \<and> f x = Inr y)"
  by (cases m) simp_all

lemma length_slice: "length (slice xs s e) = min e (length xs) - s"
  by (auto simp: slice_def)

lemma length_np_empty [simp]: "length (np_empty junk n) = n"
  by (simp add: np_empty_def)

section \<open>A camera with fewer than two centers\<close>

lemma segment_edges_short:
  assumes "length icenters < 2"
  shows "\<exists>err. segment_edges icenters = Inl err"
proof (cases "icenters = []")
  case True
  then show ?thesis by (simp add: segment_edges_def getitem_def)
next
  case False
  with assms have "length icenters = 1" by (cases icenters) auto
  then show ?thesis by (simp add: segment_edges_def getitem_def)
qed

lemma centers_to_edges_loop_short:
  assumes "(s, e) \<in> set camerapix" and "length (slice centers s e) < 2"
  shows "\<exists>err. centers_to_edges_loop centers icam camerapix edges = Inl err"
  using assms
proof (induction camerapix arbitrary: icam edges)
  case Nil
  then show ?case by simp
next
  case (Cons p rest)
  obtain s' e' where p: "p = (s', e')" by (cases p)
  show ?case
  proof (cases "segment_edges (slice centers s' e')")
    case (Inl err)
    then show ?thesis by (simp add: p)
  next
    case seg: (Inr seg)
    have "(s, e) \<noteq> (s', e')"
      using segment_edges_short [OF Cons.prems(2)] seg by auto
    with Cons.prems(1) have in_rest: "(s, e) \<in> set rest"
      by (auto simp: p)
    show ?thesis
    proof (cases "set_slice edges (s' + icam) (e' + icam + 1) seg")
      case (Inl err)
      then show ?thesis by (simp add: p seg)
    next
      case (Inr edges')
      with Cons.IH [OF in_rest Cons.prems(2)] show ?thesis by (simp add: p seg)
    qed
  qed
qed

text \<open>
  Claim C9. Whenever some camera's range \<open>(s, e)\<close> selects fewer than two centers,
  \<open>centers_to_edges\<close> raises: it returns an error and no array of edges.
\<close>

theorem centers_to_edges_fails_fast:
  assumes "(s, e) \<in> set camerapix" and "length (slice centers s e) < 2"
  shows "\<exists>err. centers_to_edges junk centers camerapix = Inl err"
  unfolding centers_to_edges_def using assms by (rule centers_to_edges_loop_short)

theorem centers_to_edges_fails_fast_witness:
  "(0, 1) \<in> set [(0, 3), (0, 1 :: nat)] \<and> length (slice [1, 2, 4 :: real] 0 1) < 2 \<and>
   (\<exists>err. centers_to_edges (\<lambda>_. 0) [1, 2, 4] [(0, 3), (0, 1)] = Inl err)"
  using centers_to_edges_fails_fast [of 0 1 "[(0, 3), (0, 1)]" "[1, 2, 4]" "\<lambda>_. 0"]
  by (simp add: slice_def)

end
